theory Spec2Isabelle
  imports
    Complex_Main
    "HOL-Library.Multiset"
    "HOL-Library.Char_ord"
    "HOL-Library.List_Lexorder"
    "HOL-Library.Product_Lexorder"
    "HOL-Library.Extended_Nat"
begin

section \<open>Data model\<close>

text \<open>
  The two analysis scripts, \<^verbatim>\<open>analyze.py\<close> (pandas) and
  \<^verbatim>\<open>create_visualizations.py\<close> (plain Python with numpy), read benchmark
  results and aggregate them. Python floats are modelled as real numbers: every sum and
  quotient is exact, except in the section on double precision, which has the rounding of
  IEEE doubles. The float NaN, which numpy and pandas return for the mean of nothing and pandas for the standard
  deviation of fewer than two values, is a value of its own.
\<close>

datatype pyfloat = Val real | NaN

text \<open>
  One row of the loaded table: a row of the pandas DataFrame in \<^verbatim>\<open>analyze.py\<close>,
  a dict of \<^verbatim>\<open>csv.DictReader\<close> after the conversions in
  \<^verbatim>\<open>create_visualizations.py\<close>. The numeric columns hold numbers: a table with
  a cell that \<^verbatim>\<open>int\<close> or \<^verbatim>\<open>float\<close> rejects is not a value of this type.
  The architecture column holds a label: an empty cell, which pandas reads as NaN, is
  not a value of this type either. \<open>success\<close> is the column of that name which
  \<^verbatim>\<open>generate_sample_data.py\<close> writes into \<^verbatim>\<open>results.csv\<close>, \<open>None\<close>
  where the table has no such column.
\<close>

record row =
  testId :: int
  architecture :: string
  numViewers :: int
  packetLoss :: real
  bandwidth :: string
  avgLatency :: real
  minLatency :: real
  maxLatency :: real
  avgCpu :: real
  maxCpu :: real
  avgTls :: real
  minTls :: real
  success :: "bool option"

text \<open>
  The \<^verbatim>\<open>metrics\<close> block of a JSON result, with the seven numbers the loader reads
  (\<^verbatim>\<open>metrics.latency.average\<close> and so on).
\<close>

record metrics =
  latency_average :: real
  latency_min :: real
  latency_max :: real
  cpu_average :: real
  cpu_max :: real
  tls_average :: real
  tls_min :: real

text \<open>
  One element of the \<^verbatim>\<open>results\<close> list of \<^verbatim>\<open>results.json\<close>. The loader
  reads \<^verbatim>\<open>success\<close> and \<^verbatim>\<open>metrics\<close> with \<^verbatim>\<open>dict.get\<close>, so both
  may be missing: \<open>None\<close> stands for a missing key and for every falsy value
  (\<^verbatim>\<open>null\<close>, an empty block).
\<close>

record json_result =
  j_testId :: int
  j_architecture :: string
  j_numViewers :: int
  j_packetLoss :: real
  j_bandwidth :: string
  j_success :: "bool option"
  j_metrics :: "metrics option"

text \<open>
  The results directory holds \<^verbatim>\<open>results.csv\<close>, \<^verbatim>\<open>results.json\<close>, both or
  neither. The file system is \<open>None\<close> when the directory itself does not exist.
\<close>

record results_dir =
  csv_file :: "row list option"
  json_file :: "json_result list option"

datatype py_error = FileNotFoundError | KeyError

section \<open>Strings\<close>

text \<open>
  Labels are ASCII strings: \<^verbatim>\<open>str.upper\<close> and \<^verbatim>\<open>str.lower\<close> change the
  letters a to z and A to Z and nothing else.
\<close>

definition upper_char :: "char \<Rightarrow> char" where
  "upper_char c =
     (let n = (of_char c :: nat) in if 97 \<le> n \<and> n \<le> 122 then char_of (n - 32) else c)"

definition lower_char :: "char \<Rightarrow> char" where
  "lower_char c =
     (let n = (of_char c :: nat) in if 65 \<le> n \<and> n \<le> 90 then char_of (n + 32) else c)"

definition upper :: "string \<Rightarrow> string" where
  "upper s = map upper_char s"

definition lower :: "string \<Rightarrow> string" where
  "lower s = map lower_char s"

section \<open>Record Loader\<close>

subsection \<open>analyze.py: DataAnalyzer.load_data\<close>

definition usable :: "json_result \<Rightarrow> bool" where
  "usable r \<longleftrightarrow> j_success r = Some True \<and> j_metrics r \<noteq> None"

definition to_record :: "json_result \<Rightarrow> row" where
  "to_record r =
     (let m = the (j_metrics r) in
      \<lparr> testId = j_testId r,
        architecture = upper (j_architecture r),
        numViewers = j_numViewers r,
        packetLoss = j_packetLoss r,
        bandwidth = j_bandwidth r,
        avgLatency = latency_average m,
        minLatency = latency_min m,
        maxLatency = latency_max m,
        avgCpu = cpu_average m,
        maxCpu = cpu_max m,
        avgTls = tls_average m,
        minTls = tls_min m,
        success = None \<rparr>)"

text \<open>
  \<^verbatim>\<open>pd.read_csv\<close> gives one DataFrame row for each data row of the file. The JSON
  branch keeps the usable results. A DataFrame built from no records has no columns, so
  the \<^verbatim>\<open>self.data['architecture']\<close> in the print statements after the branch raises
  \<^verbatim>\<open>KeyError\<close>.
\<close>

definition load_data :: "results_dir \<Rightarrow> py_error + row list" where
  "load_data d =
     (case csv_file d of
        Some table \<Rightarrow> Inr table
      | None \<Rightarrow>
          (case json_file d of
             Some results \<Rightarrow>
               (let records = map to_record (filter usable results)
                in if records = [] then Inl KeyError else Inr records)
           | None \<Rightarrow> Inl FileNotFoundError))"

subsection \<open>create_visualizations.py: load_data\<close>

definition cv_load_data :: "results_dir option \<Rightarrow> row list" where
  "cv_load_data fs =
     (case fs of
        None \<Rightarrow> []
      | Some d \<Rightarrow> (case csv_file d of None \<Rightarrow> [] | Some table \<Rightarrow> table))"

section \<open>Grouping and aggregation\<close>

text \<open>
  \<^verbatim>\<open>Series.mean\<close> of pandas and \<^verbatim>\<open>np.mean\<close> of numpy: the sum divided by
  the count, NaN for no values.
\<close>

definition mean :: "real list \<Rightarrow> pyfloat" where
  "mean xs = (if xs = [] then NaN else Val (sum_list xs / real (length xs)))"

subsection \<open>analyze.py\<close>

text \<open>
  \<^verbatim>\<open>df.groupby(keys)[col].mean().reset_index()\<close>: one row for each key that occurs
  in the frame, the keys in ascending order, with the mean of the column over the rows
  of that key.
\<close>

definition groupby_mean ::
  "(row \<Rightarrow> 'k::linorder) \<Rightarrow> (row \<Rightarrow> real) \<Rightarrow> row list \<Rightarrow> ('k \<times> pyfloat) list" where
  "groupby_mean key val df =
     map (\<lambda>k. (k, mean (map val (filter (\<lambda>r. key r = k) df)))) (sort (remdups (map key df)))"

text \<open>
  What a chart function hands to the plotting library. Each \<^verbatim>\<open>generate_*_chart\<close>
  returns \<open>None\<close> where the source prints its warning and returns before plotting.
\<close>

datatype plot =
    CpuPlot "((string \<times> int) \<times> pyfloat) list"
  | LatencyPlot "((string \<times> real) \<times> pyfloat \<times> real) list"
  | TlsPlot "((string \<times> string) \<times> pyfloat) list"
  | CvCpuPlot "(int \<times> pyfloat) list" "(int \<times> pyfloat) list"
  | CvLatencyPlot "(real \<times> pyfloat) list" "(real \<times> pyfloat) list"
  | CvTlsPlot "pyfloat list" "pyfloat list"

definition cpu_grouped :: "row list \<Rightarrow> ((string \<times> int) \<times> pyfloat) list" where
  "cpu_grouped cpu_data = groupby_mean (\<lambda>r. (architecture r, numViewers r)) avgCpu cpu_data"

definition generate_cpu_utilization_chart :: "row list \<Rightarrow> plot option" where
  "generate_cpu_utilization_chart df =
     (let cpu_data = filter (\<lambda>r. packetLoss r = 0) df
      in if cpu_data = [] then None else Some (CpuPlot (cpu_grouped cpu_data)))"

definition latency_grouped :: "row list \<Rightarrow> ((string \<times> real) \<times> pyfloat) list" where
  "latency_grouped latency_data =
     groupby_mean (\<lambda>r. (architecture r, packetLoss r)) avgLatency latency_data"

text \<open>The chart gets the column \<^verbatim>\<open>packetLossPercent\<close> beside the mean.\<close>

definition generate_latency_vs_loss_chart :: "row list \<Rightarrow> plot option" where
  "generate_latency_vs_loss_chart df =
     (let latency_data = filter (\<lambda>r. numViewers r = 5) df
      in if latency_data = [] then None
         else Some (LatencyPlot (map (\<lambda>((arch, loss), m). ((arch, loss), m, loss * 100))
                                   (latency_grouped latency_data))))"

text \<open>
  The dict \<^verbatim>\<open>bandwidth_order\<close> of the chart function. \<^verbatim>\<open>Series.map\<close> gives NaN
  for a tier that is not a key, and \<^verbatim>\<open>sort_values\<close> puts NaN last: such a tier has
  the number \<open>\<infinity>\<close>. Rows with the same number keep their order here; the sort of
  pandas does not promise that, and nothing below relies on it.
\<close>

definition bandwidth_order :: "(string \<times> nat) list" where
  "bandwidth_order = [(''1mbit'', 1), (''2mbit'', 2), (''5mbit'', 5)]"

definition bandwidthNum :: "string \<Rightarrow> enat" where
  "bandwidthNum b = (case map_of bandwidth_order b of Some n \<Rightarrow> enat n | None \<Rightarrow> \<infinity>)"

definition tls_grouped :: "row list \<Rightarrow> ((string \<times> string) \<times> pyfloat) list" where
  "tls_grouped tls_data =
     sort_key (\<lambda>((arch, bw), m). bandwidthNum bw)
       (groupby_mean (\<lambda>r. (architecture r, bandwidth r)) avgTls tls_data)"

definition generate_tls_vs_bandwidth_chart :: "row list \<Rightarrow> plot option" where
  "generate_tls_vs_bandwidth_chart df =
     (let tls_data = filter (\<lambda>r. numViewers r = 5 \<and> packetLoss r = 0) df
      in if tls_data = [] then None else Some (TlsPlot (tls_grouped tls_data)))"

subsection \<open>create_visualizations.py\<close>

text \<open>
  A \<^verbatim>\<open>defaultdict(list)\<close> is an association list in insertion order;
  \<^verbatim>\<open>d[k].append(v)\<close> adds the key with the one value when the key is new.
\<close>

fun dict_append :: "'k \<Rightarrow> 'v \<Rightarrow> ('k \<times> 'v list) list \<Rightarrow> ('k \<times> 'v list) list" where
  "dict_append k v [] = [(k, [v])]"
| "dict_append k v ((k', vs) # d) =
     (if k = k' then (k', vs @ [v]) # d else (k', vs) # dict_append k v d)"

definition dict_get :: "('k \<times> 'v list) list \<Rightarrow> 'k \<Rightarrow> 'v list" where
  "dict_get d k = (case map_of d k of None \<Rightarrow> [] | Some vs \<Rightarrow> vs)"

text \<open>
  The grouping loop of the three chart functions: a record goes to \<^verbatim>\<open>p2p_data\<close>
  when its label is \<^verbatim>\<open>p2p\<close> in any case, to \<^verbatim>\<open>sfu_data\<close> otherwise.
\<close>

definition group_step ::
  "(row \<Rightarrow> 'k) \<Rightarrow> (row \<Rightarrow> real) \<Rightarrow> ('k \<times> real list) list \<times> ('k \<times> real list) list \<Rightarrow> row
     \<Rightarrow> ('k \<times> real list) list \<times> ('k \<times> real list) list" where
  "group_step key val acc item =
     (if lower (architecture item) = ''p2p''
      then (dict_append (key item) (val item) (fst acc), snd acc)
      else (fst acc, dict_append (key item) (val item) (snd acc)))"

definition group_loop ::
  "(row \<Rightarrow> 'k) \<Rightarrow> (row \<Rightarrow> real) \<Rightarrow> row list
     \<Rightarrow> ('k \<times> real list) list \<times> ('k \<times> real list) list" where
  "group_loop key val filtered_data = foldl (group_step key val) ([], []) filtered_data"

text \<open>The same loop with one dict only, for the records that go to that dict.\<close>

definition fill ::
  "('r \<Rightarrow> 'k) \<Rightarrow> ('r \<Rightarrow> 'v) \<Rightarrow> ('k \<times> 'v list) list \<Rightarrow> 'r list \<Rightarrow> ('k \<times> 'v list) list" where
  "fill key val d items = foldl (\<lambda>d i. dict_append (key i) (val i) d) d items"

text \<open>The averages over the sorted keys of one dict.\<close>

definition averages :: "('k::linorder \<times> real list) list \<Rightarrow> ('k \<times> pyfloat) list" where
  "averages d = map (\<lambda>k. (k, mean (dict_get d k))) (sort (map fst d))"

definition create_cpu_utilization_chart :: "row list \<Rightarrow> plot" where
  "create_cpu_utilization_chart data =
     (let filtered_data = filter (\<lambda>d. packetLoss d = 0) data;
          g = group_loop numViewers avgCpu filtered_data
      in CvCpuPlot (averages (fst g)) (averages (snd g)))"

definition create_latency_vs_loss_chart :: "row list \<Rightarrow> plot" where
  "create_latency_vs_loss_chart data =
     (let filtered_data = filter (\<lambda>d. numViewers d = 5) data;
          g = group_loop packetLoss avgLatency filtered_data
      in CvLatencyPlot (map (\<lambda>(l, m). (l * 100, m)) (averages (fst g)))
                       (map (\<lambda>(l, m). (l * 100, m)) (averages (snd g))))"

definition cv_bandwidth_order :: "string list" where
  "cv_bandwidth_order = [''1mbit'', ''2mbit'', ''5mbit'']"

definition create_tls_vs_bandwidth_chart :: "row list \<Rightarrow> plot" where
  "create_tls_vs_bandwidth_chart data =
     (let filtered_data = filter (\<lambda>d. numViewers d = 5 \<and> packetLoss d = 0) data;
          g = group_loop bandwidth avgTls filtered_data
      in CvTlsPlot (map (\<lambda>bw. mean (dict_get (fst g) bw)) cv_bandwidth_order)
                   (map (\<lambda>bw. mean (dict_get (snd g) bw)) cv_bandwidth_order))"

section \<open>Double precision\<close>

text \<open>
  A Python float is an IEEE double: a sum or a quotient of two doubles is the exact result
  rounded to the nearest double, to the one with the even mantissa when two are equally
  near. This section has that rounding, for the means of \<^verbatim>\<open>create_visualizations.py\<close>.
  Results beyond the largest double are not modelled.

  \<open>expo x\<close> is the exponent of the power of two at or below a positive \<open>x\<close>.
\<close>

function halvings :: "real \<Rightarrow> nat" where
  "halvings x = (if 2 \<le> x then Suc (halvings (x / 2)) else 0)"
  by pat_completeness auto
termination
proof (relation "measure (\<lambda>x. nat \<lfloor>x\<rfloor>)")
  show "wf (measure (\<lambda>x::real. nat \<lfloor>x\<rfloor>))" by simp
next
  fix x :: real
  assume "2 \<le> x"
  then have "x / 2 \<le> x - 1" by simp
  then have "\<lfloor>x / 2\<rfloor> \<le> \<lfloor>x - 1\<rfloor>" by (rule floor_mono)
  moreover from \<open>2 \<le> x\<close> have "2 \<le> \<lfloor>x\<rfloor>" by (simp add: le_floor_iff)
  ultimately have "nat \<lfloor>x / 2\<rfloor> < nat \<lfloor>x\<rfloor>" by simp
  then show "(x / 2, x) \<in> measure (\<lambda>x. nat \<lfloor>x\<rfloor>)" by (simp only: in_measure)
qed

function doublings :: "real \<Rightarrow> nat" where
  "doublings x = (if 0 < x \<and> x < 1 then Suc (doublings (x * 2)) else 0)"
  by pat_completeness auto
termination
proof (relation "measure (\<lambda>x. nat \<lceil>1 / x\<rceil>)")
  show "wf (measure (\<lambda>x::real. nat \<lceil>1 / x\<rceil>))" by simp
next
  fix x :: real
  assume h: "0 < x \<and> x < 1"
  then have "1 < 1 / x" by simp
  then have "1 < \<lceil>1 / x\<rceil>" by (simp only: less_ceiling_iff of_int_1)
  then have c: "2 \<le> \<lceil>1 / x\<rceil>" by simp
  have "1 / x \<le> of_int \<lceil>1 / x\<rceil>" by (rule le_of_int_ceiling)
  then have "1 / (x * 2) \<le> of_int \<lceil>1 / x\<rceil> / 2" by simp
  also have "\<dots> \<le> of_int (\<lceil>1 / x\<rceil> - 1)" using c by simp
  finally have "\<lceil>1 / (x * 2)\<rceil> \<le> \<lceil>1 / x\<rceil> - 1" by (simp only: ceiling_le_iff)
  with c have "nat \<lceil>1 / (x * 2)\<rceil> < nat \<lceil>1 / x\<rceil>" by linarith
  then show "(x * 2, x) \<in> measure (\<lambda>x. nat \<lceil>1 / x\<rceil>)" by (simp only: in_measure)
qed

definition expo :: "real \<Rightarrow> int" where
  "expo x = (if 1 \<le> x then int (halvings x) else - int (doublings x))"

definition pow2 :: "int \<Rightarrow> real" where
  "pow2 e = (if 0 \<le> e then 2 ^ nat e else 1 / 2 ^ nat (- e))"

definition round_half_even :: "real \<Rightarrow> int" where
  "round_half_even s =
     (let f = \<lfloor>s\<rfloor>; d = s - of_int f
      in if d < 1 / 2 then f else if 1 / 2 < d then f + 1 else if even f then f else f + 1)"

text \<open>
  A double has 53 bits of mantissa; below \<open>2 ^ - 1022\<close> the doubles are the multiples
  of \<open>2 ^ - 1074\<close>.
\<close>

definition round_double :: "real \<Rightarrow> real" where
  "round_double x =
     (if x = 0 then 0
      else (let e = max (expo \<bar>x\<bar> - 52) (- 1074)
            in of_int (round_half_even (x / pow2 e)) * pow2 e))"

text \<open>
  \<^verbatim>\<open>np.mean\<close> of a list of doubles: numpy adds the values to 0 from left to right,
  rounding each sum, and divides the total by the count. That is the order for fewer than
  eight values; longer arrays are added in blocks, and nothing below has one.
\<close>

definition double_sum :: "real list \<Rightarrow> real" where
  "double_sum xs = foldl (\<lambda>s x. round_double (s + x)) 0 xs"

definition np_mean_double :: "real list \<Rightarrow> pyfloat" where
  "np_mean_double xs =
     (if xs = [] then NaN else Val (round_double (double_sum xs / real (length xs))))"

text \<open>
  The averages of one dict, and the CPU chart of \<^verbatim>\<open>create_visualizations.py\<close>, with
  the means in double precision.
\<close>

definition averages_double :: "('k::linorder \<times> real list) list \<Rightarrow> ('k \<times> pyfloat) list" where
  "averages_double d = map (\<lambda>k. (k, np_mean_double (dict_get d k))) (sort (map fst d))"

definition create_cpu_utilization_chart_double :: "row list \<Rightarrow> plot" where
  "create_cpu_utilization_chart_double data =
     (let filtered_data = filter (\<lambda>d. packetLoss d = 0) data;
          g = group_loop numViewers avgCpu filtered_data
      in CvCpuPlot (averages_double (fst g)) (averages_double (snd g)))"

section \<open>Summary Builder\<close>

text \<open>
  The summary is written with \<^verbatim>\<open>json.dump\<close>: a JSON object is an association list
  in insertion order, a number an integer or a float.
\<close>

datatype jnum = JInt int | JFloat pyfloat

type_synonym jobject = "(string \<times> jnum) list"

text \<open>
  The values of a column in order of first appearance (\<^verbatim>\<open>Series.unique\<close>).
\<close>

definition unique :: "'a list \<Rightarrow> 'a list" where
  "unique xs = rev (remdups (rev xs))"

text \<open>
  \<^verbatim>\<open>Series.std\<close> is the sample standard deviation (divisor \<open>n - 1\<close>); pandas
  returns NaN for fewer than two values. \<^verbatim>\<open>Series.min\<close> and \<^verbatim>\<open>Series.max\<close>
  return NaN for no values.
\<close>

definition std :: "real list \<Rightarrow> pyfloat" where
  "std xs =
     (if length xs < 2 then NaN
      else (let m = sum_list xs / real (length xs)
            in Val (sqrt (sum_list (map (\<lambda>x. (x - m)\<^sup>2) xs) / real (length xs - 1)))))"

definition series_min :: "real list \<Rightarrow> pyfloat" where
  "series_min xs = (if xs = [] then NaN else Val (Min (set xs)))"

definition series_max :: "real list \<Rightarrow> pyfloat" where
  "series_max xs = (if xs = [] then NaN else Val (Max (set xs)))"

subsection \<open>analyze.py: DataAnalyzer.generate_summary_statistics\<close>

definition describe :: "real list \<Rightarrow> jobject" where
  "describe xs =
     [(''mean'', JFloat (mean xs)), (''std'', JFloat (std xs)),
      (''min'', JFloat (series_min xs)), (''max'', JFloat (series_max xs))]"

definition arch_entry :: "row list \<Rightarrow> jobject" where
  "arch_entry arch_data =
     [(''tests'', JInt (int (length arch_data))),
      (''avg_cpu'', JFloat (mean (map avgCpu arch_data))),
      (''avg_latency'', JFloat (mean (map avgLatency arch_data))),
      (''avg_tls'', JFloat (mean (map avgTls arch_data)))]"

record summary =
  total_tests :: nat
  architectures :: "string list"
  viewer_counts :: "int list"
  packet_loss_rates :: "real list"
  bandwidth_limits :: "string list"
  overall_stats :: "(string \<times> jobject) list"
  architecture_comparison :: "(string \<times> jobject) list"

text \<open>
  The dict \<^verbatim>\<open>summary\<close> that the function builds and returns; writing it to the
  file is a step of the run below.
\<close>

definition generate_summary_statistics :: "row list \<Rightarrow> summary" where
  "generate_summary_statistics df =
     \<lparr> total_tests = length df,
       architectures = unique (map architecture df),
       viewer_counts = sort (unique (map numViewers df)),
       packet_loss_rates = sort (unique (map packetLoss df)),
       bandwidth_limits = unique (map bandwidth df),
       overall_stats =
         [(''cpu_utilization'', describe (map avgCpu df)),
          (''latency'', describe (map avgLatency df)),
          (''tls'', describe (map avgTls df))],
       architecture_comparison =
         map (\<lambda>arch. (arch, arch_entry (filter (\<lambda>r. architecture r = arch) df)))
           (unique (map architecture df)) \<rparr>"

subsection \<open>create_visualizations.py: create_summary_stats\<close>

definition cv_arch_entry :: "row list \<Rightarrow> jobject" where
  "cv_arch_entry arch_data =
     [(''avg_cpu'', JFloat (mean (map avgCpu arch_data))),
      (''avg_latency'', JFloat (mean (map avgLatency arch_data))),
      (''avg_tls'', JFloat (mean (map avgTls arch_data))),
      (''test_count'', JInt (int (length arch_data)))]"

record cv_stats =
  cv_total_tests :: nat
  cv_architectures :: "string list"
  performance_comparison :: "(string \<times> jobject) list"

definition create_summary_stats :: "row list \<Rightarrow> cv_stats" where
  "create_summary_stats data =
     \<lparr> cv_total_tests = length data,
       cv_architectures = [''P2P'', ''SFU''],
       performance_comparison =
         map (\<lambda>arch. (arch, cv_arch_entry (filter (\<lambda>d. lower (architecture d) = lower arch) data)))
           [''P2P'', ''SFU''] \<rparr>"


section \<open>The two entry points\<close>

text \<open>
  The plotting library and \<^verbatim>\<open>json.dump\<close> are outside the scripts: \<open>render\<close> says
  whether plotting and saving a chart completes (\<open>False\<close>: it raises), \<open>dump\<close> and
  \<open>cv_dump\<close> the same for writing the summary. A run ends with the files it has
  written completely and the exit status of the process.
\<close>

record outcome =
  files :: "string list"
  exit_code :: nat

text \<open>
  The chart steps in order: a step without data writes nothing and the run goes on, a
  step that raises ends the sequence with the files written so far.
\<close>

fun draw :: "(plot \<Rightarrow> bool) \<Rightarrow> (string \<times> plot option) list \<Rightarrow> string list \<Rightarrow> bool \<times> string list" where
  "draw render [] written = (True, written)"
| "draw render ((name, None) # steps) written = draw render steps written"
| "draw render ((name, Some p) # steps) written =
     (if render p then draw render steps (written @ [name]) else (False, written))"

subsection \<open>analyze.py: run_analysis and main\<close>

definition run_analysis ::
  "(plot \<Rightarrow> bool) \<Rightarrow> (summary \<Rightarrow> bool) \<Rightarrow> results_dir \<Rightarrow> bool \<times> string list" where
  "run_analysis render dump d =
     (case load_data d of
        Inl e \<Rightarrow> (False, [])
      | Inr df \<Rightarrow>
          if df \<noteq> [] then
            (case draw render
                    [(''cpu_utilization.png'', generate_cpu_utilization_chart df),
                     (''latency_vs_loss.png'', generate_latency_vs_loss_chart df),
                     (''tls_vs_bandwidth.png'', generate_tls_vs_bandwidth_chart df)] [] of
               (False, written) \<Rightarrow> (False, written)
             | (True, written) \<Rightarrow>
                 if dump (generate_summary_statistics df)
                 then (True, written @ [''summary_statistics.json''])
                 else (False, written))
          else (False, []))"

text \<open>
  The constructor of \<^verbatim>\<open>DataAnalyzer\<close> creates the output directory inside the
  results directory; where that does not exist, \<^verbatim>\<open>mkdir\<close> raises outside the
  \<^verbatim>\<open>try\<close> of \<^verbatim>\<open>run_analysis\<close> and the interpreter exits with status 1.
\<close>

definition main :: "(plot \<Rightarrow> bool) \<Rightarrow> (summary \<Rightarrow> bool) \<Rightarrow> results_dir option \<Rightarrow> outcome" where
  "main render dump fs =
     (case fs of
        None \<Rightarrow> \<lparr> files = [], exit_code = 1 \<rparr>
      | Some d \<Rightarrow>
          (case run_analysis render dump d of
             (True, written) \<Rightarrow> \<lparr> files = written, exit_code = 0 \<rparr>
           | (False, written) \<Rightarrow> \<lparr> files = written, exit_code = 1 \<rparr>))"

subsection \<open>create_visualizations.py: main\<close>

text \<open>
  There is no \<^verbatim>\<open>try\<close> here: a step that raises ends the process with status 1.
  Without data, \<^verbatim>\<open>main\<close> prints a message and returns.
\<close>

definition cv_main :: "(plot \<Rightarrow> bool) \<Rightarrow> (cv_stats \<Rightarrow> bool) \<Rightarrow> results_dir option \<Rightarrow> outcome" where
  "cv_main render cv_dump fs =
     (let data = cv_load_data fs in
      if data = [] then \<lparr> files = [], exit_code = 0 \<rparr>
      else
        (case draw render
                [(''cpu_utilization.png'', Some (create_cpu_utilization_chart data)),
                 (''latency_vs_loss.png'', Some (create_latency_vs_loss_chart data)),
                 (''tls_vs_bandwidth.png'', Some (create_tls_vs_bandwidth_chart data))] [] of
           (False, written) \<Rightarrow> \<lparr> files = written, exit_code = 1 \<rparr>
         | (True, written) \<Rightarrow>
             if cv_dump (create_summary_stats data)
             then \<lparr> files = written @ [''summary_statistics.json''], exit_code = 0 \<rparr>
             else \<lparr> files = written, exit_code = 1 \<rparr>))"

section \<open>Example inputs\<close>

text \<open>
  A table row with the given architecture, viewer count, packet loss, bandwidth tier and
  \<open>success\<close> column; the measurement \<open>x\<close> fills every metric column.
\<close>

definition mk_row :: "string \<Rightarrow> int \<Rightarrow> real \<Rightarrow> string \<Rightarrow> real \<Rightarrow> bool option \<Rightarrow> row" where
  "mk_row arch n loss bw x s =
     \<lparr> testId = 1, architecture = arch, numViewers = n, packetLoss = loss, bandwidth = bw,
       avgLatency = x, minLatency = x, maxLatency = x, avgCpu = x, maxCpu = x,
       avgTls = x, minTls = x, success = s \<rparr>"

text \<open>A JSON result of architecture \<^verbatim>\<open>p2p\<close> with the given flag and metrics block.\<close>

definition mk_result :: "bool option \<Rightarrow> metrics option \<Rightarrow> json_result" where
  "mk_result s m =
     \<lparr> j_testId = 1, j_architecture = ''p2p'', j_numViewers = 5, j_packetLoss = 0,
       j_bandwidth = ''5mbit'', j_success = s, j_metrics = m \<rparr>"

definition mk_metrics :: "real \<Rightarrow> metrics" where
  "mk_metrics x =
     \<lparr> latency_average = x, latency_min = x, latency_max = x, cpu_average = x, cpu_max = x,
       tls_average = x, tls_min = x \<rparr>"

section \<open>Properties of the aggregation\<close>

lemma mean_mset: "mset xs = mset ys \<Longrightarrow> mean xs = mean ys"
proof -
  assume h: "mset xs = mset ys"
  then have "sum_list xs = sum_list ys"
    by (metis sum_mset_sum_list)
  moreover from h have "length xs = length ys"
    by (metis size_mset)
  moreover from h have "xs = [] \<longleftrightarrow> ys = []"
    by (metis mset_zero_iff)
  ultimately show ?thesis
    by (simp add: mean_def)
qed

lemma mean_singleton: "mean [x] = Val x"
  by (simp add: mean_def)

lemma group_values_mset:
  "mset df' = mset df \<Longrightarrow> mset (map val (filter Q df')) = mset (map val (filter Q df))"
  by (metis mset_filter mset_map)

lemma sorted_keys_mset:
  "mset df' = mset df \<Longrightarrow> sort (remdups (map key df')) = sort (remdups (map key df))"
proof -
  assume "mset df' = mset df"
  then have "set (map key df') = set (map key df)"
    by (metis mset_map set_mset_mset)
  then have "set (sort (remdups (map key df'))) = set (sort (remdups (map key df)))"
    by simp
  then show ?thesis
    by (intro sorted_distinct_set_unique) simp_all
qed

lemma groupby_mean_mset:
  "mset df' = mset df \<Longrightarrow> groupby_mean key val df' = groupby_mean key val df"
proof -
  assume h: "mset df' = mset df"
  have m: "mean (map val (filter (\<lambda>r. key r = k) df')) = mean (map val (filter (\<lambda>r. key r = k) df))" for k
    by (rule mean_mset) (rule group_values_mset [OF h])
  show ?thesis
    unfolding groupby_mean_def by (simp only: sorted_keys_mset [OF h] m)
qed

lemma groupby_mean_keys: "map fst (groupby_mean key val df) = sort (remdups (map key df))"
  by (simp add: groupby_mean_def comp_def)

lemma groupby_mean_key_set: "fst ` set (groupby_mean key val df) = key ` set df"
proof -
  have "fst ` set (groupby_mean key val df) = set (map fst (groupby_mean key val df))"
    by simp
  also have "\<dots> = key ` set df"
    by (simp only: groupby_mean_keys) simp
  finally show ?thesis .
qed

lemma groupby_mean_distinct: "distinct (map fst (groupby_mean key val df))"
  by (simp add: groupby_mean_keys)

lemma groupby_mean_lookup:
  "map_of (groupby_mean key val df) k =
     (if k \<in> key ` set df then Some (mean (map val (filter (\<lambda>r. key r = k) df))) else None)"
  by (simp add: groupby_mean_def map_of_map_restrict restrict_map_def)


lemma map_of_dict_append:
  "map_of (dict_append k v d) = (map_of d)(k \<mapsto> dict_get d k @ [v])"
  by (induction d) (auto simp: dict_get_def fun_eq_iff)

lemma dict_get_dict_append:
  "dict_get (dict_append k v d) k' = (if k' = k then dict_get d k @ [v] else dict_get d k')"
  by (simp add: dict_get_def map_of_dict_append)

lemma keys_dict_append: "fst ` set (dict_append k v d) = insert k (fst ` set d)"
proof (induction d)
  case Nil
  then show ?case by simp
next
  case (Cons e d)
  obtain k' vs where e: "e = (k', vs)" by (cases e)
  show ?case
    using Cons.IH by (cases "k = k'") (simp_all add: e insert_commute)
qed

lemma distinct_dict_append:
  "distinct (map fst d) \<Longrightarrow> distinct (map fst (dict_append k v d))"
proof (induction d)
  case Nil
  then show ?case by simp
next
  case (Cons e d)
  obtain k' vs where e: "e = (k', vs)" by (cases e)
  from Cons have "k' \<notin> fst ` set d" and "distinct (map fst (dict_append k v d))"
    by (simp_all add: e)
  then show ?case
    using Cons.prems by (simp add: e keys_dict_append)
qed

lemma dict_get_fill:
  "dict_get (fill key val d items) k = dict_get d k @ map val (filter (\<lambda>i. key i = k) items)"
  unfolding fill_def
  by (induction items arbitrary: d) (simp_all add: dict_get_dict_append)

lemma keys_fill: "fst ` set (fill key val d items) = fst ` set d \<union> key ` set items"
  unfolding fill_def
  by (induction items arbitrary: d) (simp_all add: keys_dict_append)

lemma distinct_fill: "distinct (map fst d) \<Longrightarrow> distinct (map fst (fill key val d items))"
  unfolding fill_def
  by (induction items arbitrary: d) (simp_all add: distinct_dict_append)

lemma group_loop_split:
  "foldl (group_step key val) (p, s) items =
     (fill key val p (filter (\<lambda>r. lower (architecture r) = ''p2p'') items),
      fill key val s (filter (\<lambda>r. lower (architecture r) \<noteq> ''p2p'') items))"
  unfolding fill_def
  by (induction items arbitrary: p s) (simp_all add: group_step_def)


lemma averages_fill: "averages (fill key val [] xs) = groupby_mean key val xs"
proof -
  let ?d = "fill key val [] xs"
  have "distinct (map fst ?d)"
    by (rule distinct_fill) simp
  moreover have "set (map fst ?d) = set (remdups (map key xs))"
    using keys_fill [of key val "[]" xs] by simp
  ultimately have keys: "sort (map fst ?d) = sort (remdups (map key xs))"
    by (intro sorted_distinct_set_unique) simp_all
  have empty: "dict_get ([] :: ('a \<times> real list) list) k = []" for k
    by (simp add: dict_get_def)
  have "dict_get ?d k = map val (filter (\<lambda>r. key r = k) xs)" for k
    by (simp only: dict_get_fill empty append_Nil)
  then show ?thesis
    unfolding averages_def groupby_mean_def by (simp only: keys)
qed

lemma group_loop_fst:
  "fst (group_loop key val items) =
     fill key val [] (filter (\<lambda>r. lower (architecture r) = ''p2p'') items)"
  by (simp add: group_loop_def group_loop_split)

lemma group_loop_snd:
  "snd (group_loop key val items) =
     fill key val [] (filter (\<lambda>r. lower (architecture r) \<noteq> ''p2p'') items)"
  by (simp add: group_loop_def group_loop_split)

lemma p2p_averages:
  "averages (fst (group_loop key val items)) =
     groupby_mean key val (filter (\<lambda>r. lower (architecture r) = ''p2p'') items)"
  by (simp only: group_loop_fst averages_fill)

lemma sfu_averages:
  "averages (snd (group_loop key val items)) =
     groupby_mean key val (filter (\<lambda>r. lower (architecture r) \<noteq> ''p2p'') items)"
  by (simp only: group_loop_snd averages_fill)

subsection \<open>Invariance under permutation of the input\<close>

lemma lower_labels:
  "lower ''p2p'' = ''p2p''" "lower ''sfu'' = ''sfu''" "lower ''P2P'' = ''p2p''"
  "lower ''SFU'' = ''sfu''" "lower ''MCU'' = ''mcu''"
  by code_simp+

lemma filter_mset_empty: "mset df' = mset df \<Longrightarrow> filter P df' = [] \<longleftrightarrow> filter P df = []"
  by (metis mset_filter mset_zero_iff)

lemma filter_mset: "mset df' = mset df \<Longrightarrow> mset (filter P df') = mset (filter P df)"
  by (metis mset_filter)

lemma generate_cpu_mset:
  "mset df' = mset df \<Longrightarrow> generate_cpu_utilization_chart df' = generate_cpu_utilization_chart df"
proof -
  assume h: "mset df' = mset df"
  have e: "filter P df' = [] \<longleftrightarrow> filter P df = []" for P
    by (rule filter_mset_empty [OF h])
  have g: "groupby_mean key val (filter P df') = groupby_mean key val (filter P df)"
    for key :: "row \<Rightarrow> 'k::linorder" and val P
    by (rule groupby_mean_mset [OF filter_mset [OF h]])
  show ?thesis
    unfolding generate_cpu_utilization_chart_def cpu_grouped_def Let_def
    by (simp only: e g)
qed

lemma generate_latency_mset:
  "mset df' = mset df \<Longrightarrow> generate_latency_vs_loss_chart df' = generate_latency_vs_loss_chart df"
proof -
  assume h: "mset df' = mset df"
  have e: "filter P df' = [] \<longleftrightarrow> filter P df = []" for P
    by (rule filter_mset_empty [OF h])
  have g: "groupby_mean key val (filter P df') = groupby_mean key val (filter P df)"
    for key :: "row \<Rightarrow> 'k::linorder" and val P
    by (rule groupby_mean_mset [OF filter_mset [OF h]])
  show ?thesis
    unfolding generate_latency_vs_loss_chart_def latency_grouped_def Let_def
    by (simp only: e g)
qed

lemma generate_tls_mset:
  "mset df' = mset df \<Longrightarrow> generate_tls_vs_bandwidth_chart df' = generate_tls_vs_bandwidth_chart df"
proof -
  assume h: "mset df' = mset df"
  have e: "filter P df' = [] \<longleftrightarrow> filter P df = []" for P
    by (rule filter_mset_empty [OF h])
  have g: "groupby_mean key val (filter P df') = groupby_mean key val (filter P df)"
    for key :: "row \<Rightarrow> 'k::linorder" and val P
    by (rule groupby_mean_mset [OF filter_mset [OF h]])
  show ?thesis
    unfolding generate_tls_vs_bandwidth_chart_def tls_grouped_def Let_def
    by (simp only: e g)
qed

lemma p2p_averages_mset:
  "mset xs' = mset xs \<Longrightarrow>
     averages (fst (group_loop key val xs')) = averages (fst (group_loop key val xs))"
  unfolding p2p_averages by (rule groupby_mean_mset [OF filter_mset])

lemma sfu_averages_mset:
  "mset xs' = mset xs \<Longrightarrow>
     averages (snd (group_loop key val xs')) = averages (snd (group_loop key val xs))"
  unfolding sfu_averages by (rule groupby_mean_mset [OF filter_mset])

lemma create_cpu_mset:
  "mset df' = mset df \<Longrightarrow> create_cpu_utilization_chart df' = create_cpu_utilization_chart df"
proof -
  assume h: "mset df' = mset df"
  have p: "averages (fst (group_loop key val (filter P df'))) =
           averages (fst (group_loop key val (filter P df)))"
    for key :: "row \<Rightarrow> 'k::linorder" and val P
    by (rule p2p_averages_mset [OF filter_mset [OF h]])
  have q: "averages (snd (group_loop key val (filter P df'))) =
           averages (snd (group_loop key val (filter P df)))"
    for key :: "row \<Rightarrow> 'k::linorder" and val P
    by (rule sfu_averages_mset [OF filter_mset [OF h]])
  show ?thesis
    unfolding create_cpu_utilization_chart_def Let_def
    by (simp only: p q)
qed

lemma create_latency_mset:
  "mset df' = mset df \<Longrightarrow> create_latency_vs_loss_chart df' = create_latency_vs_loss_chart df"
proof -
  assume h: "mset df' = mset df"
  have p: "averages (fst (group_loop key val (filter P df'))) =
           averages (fst (group_loop key val (filter P df)))"
    for key :: "row \<Rightarrow> 'k::linorder" and val P
    by (rule p2p_averages_mset [OF filter_mset [OF h]])
  have q: "averages (snd (group_loop key val (filter P df'))) =
           averages (snd (group_loop key val (filter P df)))"
    for key :: "row \<Rightarrow> 'k::linorder" and val P
    by (rule sfu_averages_mset [OF filter_mset [OF h]])
  show ?thesis
    unfolding create_latency_vs_loss_chart_def Let_def
    by (simp only: p q)
qed

lemma empty_dict_get: "dict_get ([] :: ('a \<times> 'b list) list) k = []"
  by (simp add: dict_get_def)

lemma p2p_values:
  "dict_get (fst (group_loop key val items)) k =
     map val (filter (\<lambda>r. key r = k) (filter (\<lambda>r. lower (architecture r) = ''p2p'') items))"
  by (simp only: group_loop_fst dict_get_fill empty_dict_get append_Nil)

lemma sfu_values:
  "dict_get (snd (group_loop key val items)) k =
     map val (filter (\<lambda>r. key r = k) (filter (\<lambda>r. lower (architecture r) \<noteq> ''p2p'') items))"
  by (simp only: group_loop_snd dict_get_fill empty_dict_get append_Nil)

lemma create_tls_bars:
  "create_tls_vs_bandwidth_chart data =
     CvTlsPlot
       (map (\<lambda>bw. mean (map avgTls (filter (\<lambda>r. bandwidth r = bw)
               (filter (\<lambda>r. lower (architecture r) = ''p2p'')
                  (filter (\<lambda>d. numViewers d = 5 \<and> packetLoss d = 0) data)))))
          [''1mbit'', ''2mbit'', ''5mbit''])
       (map (\<lambda>bw. mean (map avgTls (filter (\<lambda>r. bandwidth r = bw)
               (filter (\<lambda>r. lower (architecture r) \<noteq> ''p2p'')
                  (filter (\<lambda>d. numViewers d = 5 \<and> packetLoss d = 0) data)))))
          [''1mbit'', ''2mbit'', ''5mbit''])"
  unfolding create_tls_vs_bandwidth_chart_def Let_def cv_bandwidth_order_def
  by (simp only: p2p_values sfu_values)

lemma create_tls_mset:
  "mset df' = mset df \<Longrightarrow> create_tls_vs_bandwidth_chart df' = create_tls_vs_bandwidth_chart df"
proof -
  assume h: "mset df' = mset df"
  have "mean (map val (filter Q (filter R (filter S df')))) =
        mean (map val (filter Q (filter R (filter S df))))" for val :: "row \<Rightarrow> real" and Q R S
    by (intro mean_mset group_values_mset filter_mset h)
  then show ?thesis
    by (simp only: create_tls_bars)
qed

subsection \<open>The scenario of two records\<close>

lemma eval_cpu_two:
  "generate_cpu_utilization_chart [mk_row ''p2p'' 5 0 b 20 s, mk_row ''sfu'' 5 0 b' 30 s'] =
     Some (CpuPlot [((''p2p'', 5), Val 20), ((''sfu'', 5), Val 30)])"
  by (simp add: generate_cpu_utilization_chart_def cpu_grouped_def groupby_mean_def mk_row_def mean_def)

lemma eval_cv_cpu_two:
  "create_cpu_utilization_chart [mk_row ''p2p'' 5 0 b 20 s, mk_row ''sfu'' 5 0 b' 30 s'] =
     CvCpuPlot [(5, Val 20)] [(5, Val 30)]"
  by (simp add: create_cpu_utilization_chart_def group_loop_def group_step_def averages_def
      dict_get_def mk_row_def mean_def lower_labels)

section \<open>Properties of the summary\<close>

lemma set_unique: "set (unique xs) = set xs"
  by (simp add: unique_def)










lemma arch_comparison_lookup:
  "a \<in> architecture ` set df \<Longrightarrow>
     map_of (architecture_comparison (generate_summary_statistics df)) a =
       Some (arch_entry (filter (\<lambda>r. architecture r = a) df))"
  by (simp add: generate_summary_statistics_def map_of_map_restrict restrict_map_def set_unique)

section \<open>Properties of double precision\<close>

text \<open>
  The doubles of 0.1, 0.2 and 0.3; the sum of the first two, 0.30000000000000004; the
  means of the three in ascending and in descending order.
\<close>

lemma double_literals:
  "round_double (1 / 10) = 3602879701896397 / 36028797018963968"
  "round_double (1 / 5) = 3602879701896397 / 18014398509481984"
  "round_double (3 / 10) = 5404319552844595 / 18014398509481984"
  by (simp_all add: round_double_def expo_def pow2_def round_half_even_def)

lemma double_sum_tenth_fifth:
  "double_sum [3602879701896397 / 36028797018963968, 3602879701896397 / 18014398509481984] =
     5404319552844596 / 18014398509481984"
  by (simp add: double_sum_def round_double_def expo_def pow2_def round_half_even_def)

lemma np_mean_double_ascending:
  "np_mean_double [3602879701896397 / 36028797018963968, 3602879701896397 / 18014398509481984,
      5404319552844595 / 18014398509481984] = Val (7205759403792795 / 36028797018963968)"
  by (simp add: np_mean_double_def double_sum_def round_double_def expo_def pow2_def round_half_even_def)

lemma np_mean_double_descending:
  "np_mean_double [5404319552844595 / 18014398509481984, 3602879701896397 / 18014398509481984,
      3602879701896397 / 36028797018963968] = Val (7205759403792793 / 36028797018963968)"
  by (simp add: np_mean_double_def double_sum_def round_double_def expo_def pow2_def round_half_even_def)

section \<open>Claims about the Record Loader\<close>

text \<open>
  Claim C1, evaluated. From a CSV table both loaders return every data row; from a JSON
  document \<^verbatim>\<open>DataAnalyzer.load_data\<close> returns the usable results, converted, and
  raises \<^verbatim>\<open>KeyError\<close> when there is none. So a JSON document whose one result has
  failed gives an error where the claim has an output of no records, and a CSV row whose
  \<open>success\<close> column is false is in the output of both loaders, where the JSON branch
  leaves such a result out.
\<close>

theorem C1_loader_output:
  "load_data \<lparr> csv_file = Some table, json_file = j \<rparr> = Inr table \<and>
   cv_load_data (Some \<lparr> csv_file = Some table, json_file = j \<rparr>) = table \<and>
   load_data \<lparr> csv_file = None, json_file = Some results \<rparr> =
     (if filter usable results = [] then Inl KeyError
      else Inr (map to_record (filter usable results))) \<and>
   load_data \<lparr> csv_file = None, json_file = Some [mk_result (Some False) None] \<rparr> = Inl KeyError \<and>
   load_data \<lparr> csv_file = None,
               json_file = Some [mk_result (Some True) (Some (mk_metrics 20)), mk_result (Some False) None,
                  mk_result (Some True) None, mk_result None (Some (mk_metrics 30))] \<rparr> =
     Inr [to_record (mk_result (Some True) (Some (mk_metrics 20)))] \<and>
   success (mk_row ''P2P'' 5 0 ''5mbit'' 20 (Some False)) = Some False \<and>
   load_data \<lparr> csv_file = Some [mk_row ''P2P'' 5 0 ''5mbit'' 20 (Some False)], json_file = None \<rparr> =
     Inr [mk_row ''P2P'' 5 0 ''5mbit'' 20 (Some False)] \<and>
   cv_load_data (Some \<lparr> csv_file = Some [mk_row ''P2P'' 5 0 ''5mbit'' 20 (Some False)], json_file = None \<rparr>) =
     [mk_row ''P2P'' 5 0 ''5mbit'' 20 (Some False)]"
  by (simp add: load_data_def cv_load_data_def usable_def mk_result_def mk_row_def)

text \<open>
  Claim C10. When the results directory holds both \<^verbatim>\<open>results.csv\<close> and
  \<^verbatim>\<open>results.json\<close>, \<^verbatim>\<open>DataAnalyzer.load_data\<close> returns the CSV table and the
  JSON file has no influence: the result is the one for the directory without it.
\<close>

theorem C10_csv_precedence:
  "load_data \<lparr> csv_file = Some table, json_file = Some results \<rparr> = Inr table \<and>
   load_data \<lparr> csv_file = Some table, json_file = Some results \<rparr> =
     load_data \<lparr> csv_file = Some table, json_file = None \<rparr>"
  by (simp add: load_data_def)

section \<open>Claims about missing input and empty groups\<close>

text \<open>
  Claim C3, evaluated. Without a results directory, or with a directory that holds neither
  file, \<^verbatim>\<open>analyze.py\<close> writes no file and exits with status 1.
  \<^verbatim>\<open>create_visualizations.py\<close> writes no file either when
  \<^verbatim>\<open>results.csv\<close> is missing, but its \<^verbatim>\<open>main\<close> returns and the process
  exits with status 0.
\<close>

theorem C3_missing_input:
  "main render dump None = \<lparr> files = [], exit_code = 1 \<rparr> \<and>
   main render dump (Some \<lparr> csv_file = None, json_file = None \<rparr>) = \<lparr> files = [], exit_code = 1 \<rparr> \<and>
   cv_main render cv_dump None = \<lparr> files = [], exit_code = 0 \<rparr> \<and>
   cv_main render cv_dump (Some \<lparr> csv_file = None, json_file = j \<rparr>) = \<lparr> files = [], exit_code = 0 \<rparr>"
  by (simp add: main_def run_analysis_def load_data_def cv_main_def cv_load_data_def)

text \<open>
  Claim C2, evaluated. With one P2P record at five viewers, no loss and 1mbit,
  \<^verbatim>\<open>create_tls_vs_bandwidth_chart\<close> plots NaN for each of the five bars without a
  record, where \<^verbatim>\<open>generate_tls_vs_bandwidth_chart\<close> has the one key that occurs.
  With no record at five viewers it plots six NaN bars and the run saves the chart when
  plotting completes, where \<^verbatim>\<open>analyze.py\<close> warns, returns and never writes that
  file.
\<close>

theorem C2_empty_group:
  "create_tls_vs_bandwidth_chart [mk_row ''P2P'' 5 0 ''1mbit'' 7 None] =
     CvTlsPlot [Val 7, NaN, NaN] [NaN, NaN, NaN] \<and>
   generate_tls_vs_bandwidth_chart [mk_row ''P2P'' 5 0 ''1mbit'' 7 None] =
     Some (TlsPlot [((''P2P'', ''1mbit''), Val 7)]) \<and>
   create_tls_vs_bandwidth_chart [mk_row ''P2P'' 3 0 ''1mbit'' 7 None] =
     CvTlsPlot [NaN, NaN, NaN] [NaN, NaN, NaN] \<and>
   generate_tls_vs_bandwidth_chart [mk_row ''P2P'' 3 0 ''1mbit'' 7 None] = None \<and>
   ''tls_vs_bandwidth.png'' \<in> set (files (cv_main (\<lambda>p. True) cv_dump
       (Some \<lparr> csv_file = Some [mk_row ''P2P'' 3 0 ''1mbit'' 7 None], json_file = j \<rparr>))) \<and>
   ''tls_vs_bandwidth.png'' \<notin> set (files (main render dump
       (Some \<lparr> csv_file = Some [mk_row ''P2P'' 3 0 ''1mbit'' 7 None], json_file = j \<rparr>)))"
proof -
  have a: "create_tls_vs_bandwidth_chart [mk_row ''P2P'' 5 0 ''1mbit'' 7 None] =
     CvTlsPlot [Val 7, NaN, NaN] [NaN, NaN, NaN]"
    by (simp add: create_tls_bars mk_row_def mean_def lower_labels)
  have b: "generate_tls_vs_bandwidth_chart [mk_row ''P2P'' 5 0 ''1mbit'' 7 None] =
     Some (TlsPlot [((''P2P'', ''1mbit''), Val 7)])"
    by (simp add: generate_tls_vs_bandwidth_chart_def tls_grouped_def groupby_mean_def
        mk_row_def mean_def)
  have c: "create_tls_vs_bandwidth_chart [mk_row ''P2P'' 3 0 ''1mbit'' 7 None] =
     CvTlsPlot [NaN, NaN, NaN] [NaN, NaN, NaN]"
    by (simp add: create_tls_bars mk_row_def mean_def)
  have d: "generate_tls_vs_bandwidth_chart [mk_row ''P2P'' 3 0 ''1mbit'' 7 None] = None"
    by (simp add: generate_tls_vs_bandwidth_chart_def mk_row_def)
  have l: "generate_latency_vs_loss_chart [mk_row ''P2P'' 3 0 ''1mbit'' 7 None] = None"
    by (simp add: generate_latency_vs_loss_chart_def mk_row_def)
  have e: "''tls_vs_bandwidth.png'' \<in> set (files (cv_main (\<lambda>p. True) cv_dump
       (Some \<lparr> csv_file = Some [mk_row ''P2P'' 3 0 ''1mbit'' 7 None], json_file = j \<rparr>)))"
    by (simp add: cv_main_def cv_load_data_def)
  have f: "''tls_vs_bandwidth.png'' \<notin> set (files (main render dump
       (Some \<lparr> csv_file = Some [mk_row ''P2P'' 3 0 ''1mbit'' 7 None], json_file = j \<rparr>)))"
  proof (cases "generate_cpu_utilization_chart [mk_row ''P2P'' 3 0 ''1mbit'' 7 None]")
    case None
    then show ?thesis
      by (simp add: main_def run_analysis_def load_data_def d l)
  next
    case (Some p)
    then show ?thesis
      by (simp add: main_def run_analysis_def load_data_def d l)
  qed
  show ?thesis
    by (intro conjI a b c d e f)
qed

section \<open>Claims about the aggregation\<close>

text \<open>
  Claim C5. In \<^verbatim>\<open>analyze.py\<close> the rows of the aggregated frame are in ascending order
  of the number of their tier, with 1mbit before 2mbit before 5mbit, and every pair of
  architecture and tier of the input has a row; three records given in the order 5mbit,
  1mbit, 2mbit come out as 1mbit, 2mbit, 5mbit. In \<^verbatim>\<open>create_visualizations.py\<close> the
  bars of each architecture are the means for 1mbit, 2mbit and 5mbit, in this order.
\<close>

theorem C5_bandwidth_order:
  "sorted (map (\<lambda>((arch, bw), m). bandwidthNum bw) (tls_grouped tls_data)) \<and>
   bandwidthNum ''1mbit'' < bandwidthNum ''2mbit'' \<and>
   bandwidthNum ''2mbit'' < bandwidthNum ''5mbit'' \<and>
   fst ` set (tls_grouped tls_data) = (\<lambda>r. (architecture r, bandwidth r)) ` set tls_data \<and>
   map (snd \<circ> fst)
     (tls_grouped [mk_row ''P2P'' 5 0 ''5mbit'' 3 None, mk_row ''P2P'' 5 0 ''1mbit'' 1 None,
                   mk_row ''P2P'' 5 0 ''2mbit'' 2 None]) = [''1mbit'', ''2mbit'', ''5mbit''] \<and>
   create_tls_vs_bandwidth_chart data =
     CvTlsPlot
       (map (\<lambda>bw. mean (map avgTls (filter (\<lambda>r. bandwidth r = bw)
               (filter (\<lambda>r. lower (architecture r) = ''p2p'')
                  (filter (\<lambda>d. numViewers d = 5 \<and> packetLoss d = 0) data)))))
          [''1mbit'', ''2mbit'', ''5mbit''])
       (map (\<lambda>bw. mean (map avgTls (filter (\<lambda>r. bandwidth r = bw)
               (filter (\<lambda>r. lower (architecture r) \<noteq> ''p2p'')
                  (filter (\<lambda>d. numViewers d = 5 \<and> packetLoss d = 0) data)))))
          [''1mbit'', ''2mbit'', ''5mbit''])"
proof -
  have a: "sorted (map (\<lambda>((arch, bw), m). bandwidthNum bw) (tls_grouped tls_data))"
    unfolding tls_grouped_def by (rule sorted_sort_key)
  have b: "bandwidthNum ''1mbit'' < bandwidthNum ''2mbit''"
    "bandwidthNum ''2mbit'' < bandwidthNum ''5mbit''"
    by (simp_all add: bandwidthNum_def bandwidth_order_def)
  have c: "fst ` set (tls_grouped tls_data) = (\<lambda>r. (architecture r, bandwidth r)) ` set tls_data"
    unfolding tls_grouped_def by (simp only: set_sort groupby_mean_key_set)
  have d: "map (snd \<circ> fst)
     (tls_grouped [mk_row ''P2P'' 5 0 ''5mbit'' 3 None, mk_row ''P2P'' 5 0 ''1mbit'' 1 None,
                   mk_row ''P2P'' 5 0 ''2mbit'' 2 None]) = [''1mbit'', ''2mbit'', ''5mbit'']"
    by (simp add: tls_grouped_def groupby_mean_def mk_row_def mean_def bandwidthNum_def
        bandwidth_order_def)
  show ?thesis
    by (intro conjI a b c d create_tls_bars)
qed

text \<open>
  Claim C6, as the code has it. For two record lists that are permutations of each other,
  every filter, group key and value field, each group holds the same values, and with
  exact means the aggregation of both scripts gives the same keys with the same means, as
  does each of the six chart functions.
\<close>

theorem C6_order_independent:
  assumes "mset df' = mset df"
  shows "mset (map val (filter (\<lambda>r. key r = k) (filter P df'))) =
           mset (map val (filter (\<lambda>r. key r = k) (filter P df))) \<and>
         groupby_mean key val (filter P df') = groupby_mean key val (filter P df) \<and>
         averages (fst (group_loop key val (filter P df'))) =
           averages (fst (group_loop key val (filter P df))) \<and>
         averages (snd (group_loop key val (filter P df'))) =
           averages (snd (group_loop key val (filter P df))) \<and>
         generate_cpu_utilization_chart df' = generate_cpu_utilization_chart df \<and>
         generate_latency_vs_loss_chart df' = generate_latency_vs_loss_chart df \<and>
         generate_tls_vs_bandwidth_chart df' = generate_tls_vs_bandwidth_chart df \<and>
         create_cpu_utilization_chart df' = create_cpu_utilization_chart df \<and>
         create_latency_vs_loss_chart df' = create_latency_vs_loss_chart df \<and>
         create_tls_vs_bandwidth_chart df' = create_tls_vs_bandwidth_chart df"
proof -
  have f: "mset (filter P df') = mset (filter P df)"
    by (rule filter_mset [OF assms])
  show ?thesis
    by (intro conjI group_values_mset [OF f] groupby_mean_mset [OF f]
        p2p_averages_mset [OF f] sfu_averages_mset [OF f]
        generate_cpu_mset [OF assms] generate_latency_mset [OF assms] generate_tls_mset [OF assms]
        create_cpu_mset [OF assms] create_latency_mset [OF assms] create_tls_mset [OF assms])
qed

text \<open>
  Witness for C6: three records in two orders, two of them in one group; both scripts
  give the mean 20 for either group.
\<close>

theorem C6_order_independent_witness:
  "mset [mk_row ''p2p'' 5 0 ''1mbit'' 30 None, mk_row ''sfu'' 5 0 ''1mbit'' 20 None,
         mk_row ''p2p'' 5 0 ''1mbit'' 10 None] =
     mset [mk_row ''p2p'' 5 0 ''1mbit'' 10 None, mk_row ''p2p'' 5 0 ''1mbit'' 30 None,
           mk_row ''sfu'' 5 0 ''1mbit'' 20 None] \<and>
   generate_cpu_utilization_chart
       [mk_row ''p2p'' 5 0 ''1mbit'' 30 None, mk_row ''sfu'' 5 0 ''1mbit'' 20 None,
        mk_row ''p2p'' 5 0 ''1mbit'' 10 None] =
     Some (CpuPlot [((''p2p'', 5), Val 20), ((''sfu'', 5), Val 20)]) \<and>
   create_cpu_utilization_chart
       [mk_row ''p2p'' 5 0 ''1mbit'' 30 None, mk_row ''sfu'' 5 0 ''1mbit'' 20 None,
        mk_row ''p2p'' 5 0 ''1mbit'' 10 None] =
     CvCpuPlot [(5, Val 20)] [(5, Val 20)]"
proof -
  have h: "mset [mk_row ''p2p'' 5 0 ''1mbit'' 30 None, mk_row ''sfu'' 5 0 ''1mbit'' 20 None,
         mk_row ''p2p'' 5 0 ''1mbit'' 10 None] =
     mset [mk_row ''p2p'' 5 0 ''1mbit'' 10 None, mk_row ''p2p'' 5 0 ''1mbit'' 30 None,
           mk_row ''sfu'' 5 0 ''1mbit'' 20 None]"
    by (simp add: add_mset_commute)
  have a: "generate_cpu_utilization_chart
       [mk_row ''p2p'' 5 0 ''1mbit'' 10 None, mk_row ''p2p'' 5 0 ''1mbit'' 30 None,
        mk_row ''sfu'' 5 0 ''1mbit'' 20 None] =
     Some (CpuPlot [((''p2p'', 5), Val 20), ((''sfu'', 5), Val 20)])"
    by (simp add: generate_cpu_utilization_chart_def cpu_grouped_def groupby_mean_def mk_row_def
        mean_def)
  have b: "create_cpu_utilization_chart
       [mk_row ''p2p'' 5 0 ''1mbit'' 10 None, mk_row ''p2p'' 5 0 ''1mbit'' 30 None,
        mk_row ''sfu'' 5 0 ''1mbit'' 20 None] =
     CvCpuPlot [(5, Val 20)] [(5, Val 20)]"
    by (simp add: create_cpu_utilization_chart_def group_loop_def group_step_def averages_def
        dict_get_def mk_row_def mean_def lower_labels)
  show ?thesis
    using h C6_order_independent [OF h, of avgCpu numViewers 5 "\<lambda>r. True"]
    by (simp only: a b simp_thms)
qed

text \<open>
  Counterexample to C6 as stated: three P2P records at five viewers whose CPU values are
  the doubles of 0.1, 0.2 and 0.3. In double precision the mean of
  \<^verbatim>\<open>create_cpu_utilization_chart\<close> is 0.20000000000000004 for this order and
  0.19999999999999998 for the reverse order, so the two charts differ.
\<close>

theorem C6_double_counterexample:
  "create_cpu_utilization_chart_double
     [mk_row ''P2P'' 5 0 ''5mbit'' (round_double (1 / 10)) None,
      mk_row ''P2P'' 5 0 ''5mbit'' (round_double (1 / 5)) None,
      mk_row ''P2P'' 5 0 ''5mbit'' (round_double (3 / 10)) None] =
     CvCpuPlot [(5, Val (7205759403792795 / 36028797018963968))] [] \<and>
   create_cpu_utilization_chart_double
     [mk_row ''P2P'' 5 0 ''5mbit'' (round_double (3 / 10)) None,
      mk_row ''P2P'' 5 0 ''5mbit'' (round_double (1 / 5)) None,
      mk_row ''P2P'' 5 0 ''5mbit'' (round_double (1 / 10)) None] =
     CvCpuPlot [(5, Val (7205759403792793 / 36028797018963968))] [] \<and>
   create_cpu_utilization_chart_double
     [mk_row ''P2P'' 5 0 ''5mbit'' (round_double (1 / 10)) None,
      mk_row ''P2P'' 5 0 ''5mbit'' (round_double (1 / 5)) None,
      mk_row ''P2P'' 5 0 ''5mbit'' (round_double (3 / 10)) None] \<noteq>
   create_cpu_utilization_chart_double
     [mk_row ''P2P'' 5 0 ''5mbit'' (round_double (3 / 10)) None,
      mk_row ''P2P'' 5 0 ''5mbit'' (round_double (1 / 5)) None,
      mk_row ''P2P'' 5 0 ''5mbit'' (round_double (1 / 10)) None]"
  by (simp add: create_cpu_utilization_chart_double_def averages_double_def group_loop_def
      group_step_def dict_get_def mk_row_def lower_labels double_literals
      np_mean_double_ascending np_mean_double_descending)

text \<open>
  Claim C7. Where exactly one record has a group key, the aggregation of either script
  maps the key to the value of that record. For the records (p2p, 5 viewers, loss 0,
  CPU 20) and (sfu, 5 viewers, loss 0, CPU 30) the CPU chart of \<^verbatim>\<open>analyze.py\<close> has
  the mean 20 for p2p and 30 for sfu at 5 viewers, and the one of
  \<^verbatim>\<open>create_visualizations.py\<close> the P2P series (5, 20) and the SFU series (5, 30).
\<close>

theorem C7_single_record_group:
  "(filter (\<lambda>r. key r = k) df = [r] \<longrightarrow>
      map_of (groupby_mean key val df) k = Some (Val (val r))) \<and>
   (filter (\<lambda>r. key r = k1) (filter (\<lambda>r. lower (architecture r) = ''p2p'') items) = [r1] \<longrightarrow>
      map_of (averages (fst (group_loop key val items))) k1 = Some (Val (val r1))) \<and>
   (filter (\<lambda>r. key r = k2) (filter (\<lambda>r. lower (architecture r) \<noteq> ''p2p'') items) = [r2] \<longrightarrow>
      map_of (averages (snd (group_loop key val items))) k2 = Some (Val (val r2))) \<and>
   generate_cpu_utilization_chart [mk_row ''p2p'' 5 0 b 20 s, mk_row ''sfu'' 5 0 b' 30 s'] =
     Some (CpuPlot [((''p2p'', 5), Val 20), ((''sfu'', 5), Val 30)]) \<and>
   create_cpu_utilization_chart [mk_row ''p2p'' 5 0 b 20 s, mk_row ''sfu'' 5 0 b' 30 s'] =
     CvCpuPlot [(5, Val 20)] [(5, Val 30)]"
proof -
  have one: "map_of (groupby_mean key val xs) j = Some (Val (val x))"
    if "filter (\<lambda>r. key r = j) xs = [x]" for xs j x
  proof -
    from that have "x \<in> set (filter (\<lambda>r. key r = j) xs)"
      by simp
    then have "j \<in> key ` set xs"
      by auto
    with that show ?thesis
      by (simp add: groupby_mean_lookup mean_singleton)
  qed
  show ?thesis
    by (simp only: p2p_averages sfu_averages eval_cpu_two eval_cv_cpu_two simp_thms)
      (blast intro: one)
qed

text \<open>
  Witness for C7: one record with five viewers beside one with three, and the scenario
  split into its P2P and its SFU series.
\<close>

theorem C7_single_record_group_witness:
  "filter (\<lambda>r. numViewers r = 5)
     [mk_row ''p2p'' 5 0 ''1mbit'' 20 None, mk_row ''p2p'' 3 0 ''1mbit'' 40 None] =
     [mk_row ''p2p'' 5 0 ''1mbit'' 20 None] \<and>
   map_of (groupby_mean numViewers avgCpu
       [mk_row ''p2p'' 5 0 ''1mbit'' 20 None, mk_row ''p2p'' 3 0 ''1mbit'' 40 None]) 5 =
     Some (Val 20) \<and>
   filter (\<lambda>r. numViewers r = 5) (filter (\<lambda>r. lower (architecture r) = ''p2p'')
     [mk_row ''p2p'' 5 0 ''1mbit'' 20 None, mk_row ''sfu'' 5 0 ''1mbit'' 30 None]) =
     [mk_row ''p2p'' 5 0 ''1mbit'' 20 None] \<and>
   map_of (averages (fst (group_loop numViewers avgCpu
       [mk_row ''p2p'' 5 0 ''1mbit'' 20 None, mk_row ''sfu'' 5 0 ''1mbit'' 30 None]))) 5 =
     Some (Val 20) \<and>
   filter (\<lambda>r. numViewers r = 5) (filter (\<lambda>r. lower (architecture r) \<noteq> ''p2p'')
     [mk_row ''p2p'' 5 0 ''1mbit'' 20 None, mk_row ''sfu'' 5 0 ''1mbit'' 30 None]) =
     [mk_row ''sfu'' 5 0 ''1mbit'' 30 None] \<and>
   map_of (averages (snd (group_loop numViewers avgCpu
       [mk_row ''p2p'' 5 0 ''1mbit'' 20 None, mk_row ''sfu'' 5 0 ''1mbit'' 30 None]))) 5 =
     Some (Val 30)"
proof -
  have h: "filter (\<lambda>r. numViewers r = 5)
     [mk_row ''p2p'' 5 0 ''1mbit'' 20 None, mk_row ''p2p'' 3 0 ''1mbit'' 40 None] =
     [mk_row ''p2p'' 5 0 ''1mbit'' 20 None]"
    by (simp add: mk_row_def)
  have h1: "filter (\<lambda>r. numViewers r = 5) (filter (\<lambda>r. lower (architecture r) = ''p2p'')
     [mk_row ''p2p'' 5 0 ''1mbit'' 20 None, mk_row ''sfu'' 5 0 ''1mbit'' 30 None]) =
     [mk_row ''p2p'' 5 0 ''1mbit'' 20 None]"
    by (simp add: mk_row_def lower_labels)
  have h2: "filter (\<lambda>r. numViewers r = 5) (filter (\<lambda>r. lower (architecture r) \<noteq> ''p2p'')
     [mk_row ''p2p'' 5 0 ''1mbit'' 20 None, mk_row ''sfu'' 5 0 ''1mbit'' 30 None]) =
     [mk_row ''sfu'' 5 0 ''1mbit'' 30 None]"
    by (simp add: mk_row_def lower_labels)
  have v: "avgCpu (mk_row ''p2p'' 5 0 ''1mbit'' 20 None) = 20"
    "avgCpu (mk_row ''sfu'' 5 0 ''1mbit'' 30 None) = 30"
    by (simp_all add: mk_row_def)
  show ?thesis
    using h h1 h2
      C7_single_record_group [of numViewers 5
        "[mk_row ''p2p'' 5 0 ''1mbit'' 20 None, mk_row ''p2p'' 3 0 ''1mbit'' 40 None]"
        "mk_row ''p2p'' 5 0 ''1mbit'' 20 None" avgCpu 5
        "[mk_row ''p2p'' 5 0 ''1mbit'' 20 None, mk_row ''sfu'' 5 0 ''1mbit'' 30 None]"
        "mk_row ''p2p'' 5 0 ''1mbit'' 20 None" 5 "mk_row ''sfu'' 5 0 ''1mbit'' 30 None"]
    by (simp only: v simp_thms)
qed

section \<open>Claims about the summary\<close>






text \<open>
  Claim C9, as the code has it. For each architecture label of the records, the
  per-architecture breakdown of \<^verbatim>\<open>analyze.py\<close> holds the record count and the means
  of CPU, latency and legibility score, and nothing else, while the global block holds
  mean, standard deviation, minimum and maximum of each field. The breakdown of
  \<^verbatim>\<open>create_visualizations.py\<close> holds the three means and the record count for
  \<^verbatim>\<open>P2P\<close> and \<^verbatim>\<open>SFU\<close>.
\<close>

theorem C9_breakdown_statistics:
  "(a \<in> architecture ` set df \<longrightarrow>
      map_of (architecture_comparison (generate_summary_statistics df)) a =
        Some (arch_entry (filter (\<lambda>r. architecture r = a) df))) \<and>
   arch_entry g =
     [(''tests'', JInt (int (length g))), (''avg_cpu'', JFloat (mean (map avgCpu g))),
      (''avg_latency'', JFloat (mean (map avgLatency g))), (''avg_tls'', JFloat (mean (map avgTls g)))] \<and>
   map (\<lambda>(field, block). (field, map fst block)) (overall_stats (generate_summary_statistics df)) =
     [(''cpu_utilization'', [''mean'', ''std'', ''min'', ''max'']),
      (''latency'', [''mean'', ''std'', ''min'', ''max'']),
      (''tls'', [''mean'', ''std'', ''min'', ''max''])] \<and>
   performance_comparison (create_summary_stats data) =
     [(''P2P'', cv_arch_entry (filter (\<lambda>d. lower (architecture d) = ''p2p'') data)),
      (''SFU'', cv_arch_entry (filter (\<lambda>d. lower (architecture d) = ''sfu'') data))] \<and>
   cv_arch_entry g =
     [(''avg_cpu'', JFloat (mean (map avgCpu g))), (''avg_latency'', JFloat (mean (map avgLatency g))),
      (''avg_tls'', JFloat (mean (map avgTls g))), (''test_count'', JInt (int (length g)))]"
proof -
  have o: "map (\<lambda>(field, block). (field, map fst block)) (overall_stats (generate_summary_statistics df)) =
     [(''cpu_utilization'', [''mean'', ''std'', ''min'', ''max'']),
      (''latency'', [''mean'', ''std'', ''min'', ''max'']),
      (''tls'', [''mean'', ''std'', ''min'', ''max''])]"
    by (simp add: generate_summary_statistics_def describe_def)
  have p: "performance_comparison (create_summary_stats data) =
     [(''P2P'', cv_arch_entry (filter (\<lambda>d. lower (architecture d) = ''p2p'') data)),
      (''SFU'', cv_arch_entry (filter (\<lambda>d. lower (architecture d) = ''sfu'') data))]"
    by (simp add: create_summary_stats_def lower_labels)
  show ?thesis
    by (intro conjI impI arch_comparison_lookup o p) (simp_all add: arch_entry_def cv_arch_entry_def)
qed

text \<open>
  Witness for C9: the entry of \<^verbatim>\<open>SFU\<close> for two SFU records among three.
\<close>

theorem C9_breakdown_statistics_witness:
  "''SFU'' \<in> architecture ` set [mk_row ''P2P'' 5 0 ''1mbit'' 20 None, mk_row ''SFU'' 5 0 ''1mbit'' 30 None,
      mk_row ''SFU'' 3 0 ''1mbit'' 10 None] \<and>
   map_of (architecture_comparison (generate_summary_statistics
     [mk_row ''P2P'' 5 0 ''1mbit'' 20 None, mk_row ''SFU'' 5 0 ''1mbit'' 30 None,
      mk_row ''SFU'' 3 0 ''1mbit'' 10 None])) ''SFU'' =
     Some [(''tests'', JInt 2), (''avg_cpu'', JFloat (Val 20)),
           (''avg_latency'', JFloat (Val 20)), (''avg_tls'', JFloat (Val 20))]"
proof -
  have h: "''SFU'' \<in> architecture ` set [mk_row ''P2P'' 5 0 ''1mbit'' 20 None,
      mk_row ''SFU'' 5 0 ''1mbit'' 30 None, mk_row ''SFU'' 3 0 ''1mbit'' 10 None]"
    by (simp add: mk_row_def)
  have e: "arch_entry (filter (\<lambda>r. architecture r = ''SFU'')
      [mk_row ''P2P'' 5 0 ''1mbit'' 20 None, mk_row ''SFU'' 5 0 ''1mbit'' 30 None,
       mk_row ''SFU'' 3 0 ''1mbit'' 10 None]) =
     [(''tests'', JInt 2), (''avg_cpu'', JFloat (Val 20)),
      (''avg_latency'', JFloat (Val 20)), (''avg_tls'', JFloat (Val 20))]"
    by (simp add: arch_entry_def mk_row_def mean_def)
  show ?thesis
    using h C9_breakdown_statistics [of "''SFU''"
      "[mk_row ''P2P'' 5 0 ''1mbit'' 20 None, mk_row ''SFU'' 5 0 ''1mbit'' 30 None,
        mk_row ''SFU'' 3 0 ''1mbit'' 10 None]" "[]" "[]"]
    by (simp only: e simp_thms)
qed

text \<open>
  Counterexample to C9 as stated: two P2P records with CPU 10 and 30 have the minimum 10,
  the maximum 30 and the standard deviation \<open>sqrt 200\<close>, and the entry of \<^verbatim>\<open>P2P\<close>
  in either script holds only the count 2 and the means 20.
\<close>

theorem C9_no_spread_counterexample:
  "series_min (map avgCpu [mk_row ''P2P'' 5 0 ''1mbit'' 10 None, mk_row ''P2P'' 5 0 ''1mbit'' 30 None]) = Val 10 \<and>
   series_max (map avgCpu [mk_row ''P2P'' 5 0 ''1mbit'' 10 None, mk_row ''P2P'' 5 0 ''1mbit'' 30 None]) = Val 30 \<and>
   std (map avgCpu [mk_row ''P2P'' 5 0 ''1mbit'' 10 None, mk_row ''P2P'' 5 0 ''1mbit'' 30 None]) = Val (sqrt 200) \<and>
   architecture_comparison (generate_summary_statistics
       [mk_row ''P2P'' 5 0 ''1mbit'' 10 None, mk_row ''P2P'' 5 0 ''1mbit'' 30 None]) =
     [(''P2P'', [(''tests'', JInt 2), (''avg_cpu'', JFloat (Val 20)),
                 (''avg_latency'', JFloat (Val 20)), (''avg_tls'', JFloat (Val 20))])] \<and>
   performance_comparison (create_summary_stats
       [mk_row ''P2P'' 5 0 ''1mbit'' 10 None, mk_row ''P2P'' 5 0 ''1mbit'' 30 None]) =
     [(''P2P'', [(''avg_cpu'', JFloat (Val 20)), (''avg_latency'', JFloat (Val 20)),
                 (''avg_tls'', JFloat (Val 20)), (''test_count'', JInt 2)]),
      (''SFU'', [(''avg_cpu'', JFloat NaN), (''avg_latency'', JFloat NaN),
                 (''avg_tls'', JFloat NaN), (''test_count'', JInt 0)])]"
  by (simp add: generate_summary_statistics_def create_summary_stats_def arch_entry_def cv_arch_entry_def
      unique_def mk_row_def mean_def std_def series_min_def series_max_def lower_labels)

end
